theory Spec2Isabelle
  imports Complex_Main "HOL-Library.Sublist"
begin

section \<open>JavaScript values, truthiness and property access\<close>

text \<open>
  The client receives whatever the backend sends: \<^verbatim>\<open>response: any\<close>.  A value is
  modelled as the JavaScript value axios hands over (a string body, or the result of
  \<^verbatim>\<open>JSON.parse\<close>), plus \<^verbatim>\<open>undefined\<close>, which reading a missing property yields.
  A number is modelled by its rational value (JSON has neither NaN nor infinities);
  a string by its sequence of code units; an object by the list of its properties,
  where the first binding of a key is the property's value.
\<close>

datatype jsval =
    JUndefined
  | JNull
  | JBool bool
  | JNum rat
  | JStr string
  | JArr "jsval list"
  | JObj "(string \<times> jsval) list"

text \<open>What \<^verbatim>\<open>if (v)\<close>, \<^verbatim>\<open>v && ...\<close>, \<^verbatim>\<open>v || ...\<close> and \<^verbatim>\<open>!v\<close> test.\<close>

fun truthy :: "jsval \<Rightarrow> bool" where
  "truthy JUndefined = False"
| "truthy JNull = False"
| "truthy (JBool b) = b"
| "truthy (JNum q) = (q \<noteq> 0)"
| "truthy (JStr s) = (s \<noteq> [])"
| "truthy (JArr xs) = True"
| "truthy (JObj kvs) = True"

text \<open>
  An error object as the \<^verbatim>\<open>catch\<close> blocks read it: its constructor, its
  \<^verbatim>\<open>message\<close>, and the two fields axios sets, \<^verbatim>\<open>response\<close> (the backend answered
  with a status outside 2xx) and \<^verbatim>\<open>request\<close> (the request left, nothing came back).
\<close>

datatype err_kind = Error | TypeError | URIError | AxiosError

record axios_response =
  status :: nat
  data :: jsval

record js_error =
  kind :: err_kind
  message :: string
  response :: "axios_response option"
  request :: bool

text \<open>\<^verbatim>\<open>new Error(msg)\<close>: no \<^verbatim>\<open>response\<close>, no \<^verbatim>\<open>request\<close>.\<close>

definition new_Error :: "string \<Rightarrow> js_error" where
  "new_Error msg = \<lparr>kind = Error, message = msg, response = None, request = False\<rparr>"

definition new_TypeError :: "string \<Rightarrow> js_error" where
  "new_TypeError msg = \<lparr>kind = TypeError, message = msg, response = None, request = False\<rparr>"

text \<open>
  \<^verbatim>\<open>v.k\<close> for the keys the source reads (\<^verbatim>\<open>choices\<close>, \<^verbatim>\<open>message\<close>,
  \<^verbatim>\<open>content\<close>, \<^verbatim>\<open>response\<close>; none of them is a property of a prototype): reading a
  property of \<^verbatim>\<open>null\<close> or \<^verbatim>\<open>undefined\<close> throws a TypeError, an object yields the
  property or \<^verbatim>\<open>undefined\<close>, every other value yields \<^verbatim>\<open>undefined\<close>.
\<close>

fun get_prop :: "jsval \<Rightarrow> string \<Rightarrow> js_error + jsval" where
  "get_prop JUndefined k =
     Inl (new_TypeError (''Cannot read properties of undefined (reading '' @ [CHR 0x27] @ k @ [CHR 0x27] @ '')''))"
| "get_prop JNull k =
     Inl (new_TypeError (''Cannot read properties of null (reading '' @ [CHR 0x27] @ k @ [CHR 0x27] @ '')''))"
| "get_prop (JObj kvs) k = Inr (case map_of kvs k of Some v \<Rightarrow> v | None \<Rightarrow> JUndefined)"
| "get_prop v k = Inr JUndefined"

text \<open>\<^verbatim>\<open>Array.isArray(v)\<close>, \<^verbatim>\<open>v.length\<close> and \<^verbatim>\<open>v[i]\<close> of an array.\<close>

fun isArray :: "jsval \<Rightarrow> bool" where
  "isArray (JArr xs) = True"
| "isArray v = False"

fun array_length :: "jsval \<Rightarrow> nat" where
  "array_length (JArr xs) = length xs"
| "array_length v = 0"

fun get_index :: "jsval \<Rightarrow> nat \<Rightarrow> jsval" where
  "get_index (JArr xs) i = (if i < length xs then xs ! i else JUndefined)"
| "get_index v i = JUndefined"

text \<open>Sequencing of steps that may throw: the first exception ends the computation.\<close>

definition bind_e :: "js_error + 'a \<Rightarrow> ('a \<Rightarrow> js_error + 'b) \<Rightarrow> js_error + 'b" where
  "bind_e m f = (case m of Inl e \<Rightarrow> Inl e | Inr a \<Rightarrow> f a)"

section \<open>llm.ts: response parsing\<close>

datatype format = openai | ollama

text \<open>
  \<^verbatim>\<open>parseResponse(response, format)\<close>.  \<^verbatim>\<open>response\<close> is the object axios resolved to,
  so the leading \<^verbatim>\<open>response &&\<close> of each test holds; the tests after it are evaluated
  left to right, each property read only once the value it is read from has been found
  truthy, except \<^verbatim>\<open>choices[0].message\<close>, read without a test of \<^verbatim>\<open>choices[0]\<close>.
  \<^verbatim>\<open>stringify\<close> is the text \<^verbatim>\<open>JSON.stringify(v)\<close> contributes to a template literal.
\<close>

definition parseResponse ::
  "(jsval \<Rightarrow> string) \<Rightarrow> axios_response \<Rightarrow> format \<Rightarrow> js_error + jsval" where
  "parseResponse stringify resp fmt =
    (let invalid = Inl (new_Error (''Invalid response format: '' @ stringify (data resp)))
     in case fmt of
       openai \<Rightarrow>
         if \<not> truthy (data resp) then invalid
         else bind_e (get_prop (data resp) ''choices'') (\<lambda>choices.
           if \<not> (truthy choices \<and> isArray choices \<and> 0 < array_length choices) then invalid
           else bind_e (get_prop (get_index choices 0) ''message'') (\<lambda>msg.
             if \<not> truthy msg then invalid
             else bind_e (get_prop msg ''content'') (\<lambda>content.
               if truthy content then Inr content else invalid)))
     | ollama \<Rightarrow>
         let second =
           (if \<not> truthy (data resp) then invalid
            else bind_e (get_prop (data resp) ''message'') (\<lambda>msg.
              if \<not> truthy msg then invalid
              else bind_e (get_prop msg ''content'') (\<lambda>content.
                if truthy content then Inr content else invalid)))
         in
           if \<not> truthy (data resp) then second
           else bind_e (get_prop (data resp) ''response'') (\<lambda>r.
             if truthy r then Inr r else second))"

section \<open>llm.ts: construction\<close>

record NosanaLLM =
  baseUrl :: string
  model :: string

text \<open>\<^verbatim>\<open>s.replace(/\/+$/, '')\<close>: the longest run of slashes that ends the string is removed.\<close>

definition strip_trailing_slashes :: "string \<Rightarrow> string" where
  "strip_trailing_slashes s = rev (dropWhile (\<lambda>c. c = CHR ''/'') (rev s))"

definition ends_with :: "string \<Rightarrow> string \<Rightarrow> bool" where
  "ends_with s suf = (length suf \<le> length s \<and> drop (length s - length suf) s = suf)"

text \<open>\<^verbatim>\<open>s.replace(/\/api$/, '')\<close>: one \<^verbatim>\<open>/api\<close> that ends the string is removed.\<close>

definition strip_api_suffix :: "string \<Rightarrow> string" where
  "strip_api_suffix s = (if ends_with s ''/api'' then take (length s - 4) s else s)"

definition normalize_url :: "string \<Rightarrow> string" where
  "normalize_url url = strip_api_suffix (strip_trailing_slashes url)"

text \<open>
  \<^verbatim>\<open>a || b\<close> on an optional string: \<^verbatim>\<open>undefined\<close> (an argument left out, a variable
  not set) and the empty string are falsy.
\<close>

definition or_else :: "string option \<Rightarrow> string \<Rightarrow> string" where
  "or_else a b = (case a of None \<Rightarrow> b | Some s \<Rightarrow> if s \<noteq> [] then s else b)"

text \<open>
  \<^verbatim>\<open>new NosanaLLM(baseUrl, model?)\<close>; \<^verbatim>\<open>env_model\<close> is
  \<^verbatim>\<open>process.env.NOSANA_MODEL\<close> at that moment.
\<close>

definition new_NosanaLLM :: "string option \<Rightarrow> string \<Rightarrow> string option \<Rightarrow> NosanaLLM" where
  "new_NosanaLLM env_model url model_arg =
     \<lparr>baseUrl = normalize_url url,
      model = or_else model_arg (or_else env_model ''ollama:0.12'')\<rparr>"

section \<open>The HTTP transport and effectful computations\<close>

text \<open>
  \<^verbatim>\<open>axios.post(url, data, config)\<close> is outside the repository: what the network answers
  is a parameter, a function of the request and of a state of the outside world that
  it may change.  Every request made is appended to a log.
\<close>

record axios_post =
  post_url :: string
  post_data :: jsval
  post_headers :: "(string \<times> string) list"
  post_params :: "(string \<times> jsval) list"
  post_timeout :: "nat option"

type_synonym 'w transport = "axios_post \<Rightarrow> 'w \<Rightarrow> (js_error + axios_response) \<times> 'w"

record 'w net =
  world :: 'w
  calls :: "axios_post list"

type_synonym ('a, 'w) io = "'w net \<Rightarrow> (js_error + 'a) \<times> 'w net"

definition ret :: "'a \<Rightarrow> ('a, 'w) io" where
  "ret a = (\<lambda>s. (Inr a, s))"

definition throw :: "js_error \<Rightarrow> ('a, 'w) io" where
  "throw e = (\<lambda>s. (Inl e, s))"

definition lift_e :: "js_error + 'a \<Rightarrow> ('a, 'w) io" where
  "lift_e r = (\<lambda>s. (r, s))"

definition bind_io :: "('a, 'w) io \<Rightarrow> ('a \<Rightarrow> ('b, 'w) io) \<Rightarrow> ('b, 'w) io" where
  "bind_io m f = (\<lambda>s. case m s of (Inl e, s') \<Rightarrow> (Inl e, s') | (Inr a, s') \<Rightarrow> f a s')"

text \<open>\<^verbatim>\<open>try { m } catch (error) { h(error) }\<close>\<close>

definition try_catch :: "('a, 'w) io \<Rightarrow> (js_error \<Rightarrow> ('a, 'w) io) \<Rightarrow> ('a, 'w) io" where
  "try_catch m h = (\<lambda>s. case m s of (Inl e, s') \<Rightarrow> h e s' | (Inr a, s') \<Rightarrow> (Inr a, s'))"

definition axios_call :: "'w transport \<Rightarrow> axios_post \<Rightarrow> (axios_response, 'w) io" where
  "axios_call transport req =
     (\<lambda>s. case transport req (world s) of
             (r, w') \<Rightarrow> (r, \<lparr>world = w', calls = calls s @ [req]\<rparr>))"

text \<open>A status code in a template literal: its decimal digits.\<close>

function show_nat :: "nat \<Rightarrow> string" where
  "show_nat n =
     (if n < 10 then [''0123456789'' ! n]
      else show_nat (n div 10) @ [''0123456789'' ! (n mod 10)])"
  by pat_completeness auto
termination
  by (relation "measure id") auto

declare show_nat.simps [simp del]

section \<open>llm.ts: the calls\<close>

text \<open>The request \<^verbatim>\<open>makeApiCall(url, data)\<close> hands to \<^verbatim>\<open>axios.post\<close>.\<close>

definition api_request :: "string \<Rightarrow> jsval \<Rightarrow> axios_post" where
  "api_request url d =
     \<lparr>post_url = url, post_data = d,
      post_headers = [(''Content-Type'', ''application/json'')],
      post_params = [], post_timeout = Some 60000\<rparr>"

definition makeApiCall :: "'w transport \<Rightarrow> string \<Rightarrow> jsval \<Rightarrow> (axios_response, 'w) io" where
  "makeApiCall transport url d = axios_call transport (api_request url d)"

text \<open>
  \<^verbatim>\<open>handleApiError(error, url, fallback)\<close>: the fallback runs only for an HTTP response
  with status 404 or 405; \<^verbatim>\<open>url\<close> is only logged.
\<close>

definition handleApiError ::
  "(jsval \<Rightarrow> string) \<Rightarrow> js_error \<Rightarrow> string \<Rightarrow> (jsval, 'w) io \<Rightarrow> (jsval, 'w) io" where
  "handleApiError stringify error url fallback =
     (case response error of
        Some r \<Rightarrow>
          if status r = 404 \<or> status r = 405 then fallback
          else throw (new_Error (''Nosana API Error '' @ show_nat (status r) @ '': ''
                        @ stringify (data r)))
      | None \<Rightarrow>
          if request error then throw (new_Error (''No response from Nosana: '' @ message error))
          else throw (new_Error (''Request failed: '' @ message error)))"

definition generate_native_body :: "NosanaLLM \<Rightarrow> string \<Rightarrow> jsval" where
  "generate_native_body self prompt =
     JObj [(''model'', JStr (model self)), (''prompt'', JStr prompt), (''stream'', JBool False)]"

definition generateNativeOllama ::
  "'w transport \<Rightarrow> (jsval \<Rightarrow> string) \<Rightarrow> NosanaLLM \<Rightarrow> string \<Rightarrow> (jsval, 'w) io" where
  "generateNativeOllama transport stringify self prompt =
     (let url = baseUrl self @ ''/api/generate'' in
      try_catch
        (bind_io (makeApiCall transport url (generate_native_body self prompt))
           (\<lambda>resp. lift_e (parseResponse stringify resp ollama)))
        (\<lambda>error. throw (new_Error
           ''Both API formats failed. Check Nosana documentation for correct endpoint.'')))"

record ChatMessage =
  role :: string
  content :: string

definition message_json :: "ChatMessage \<Rightarrow> jsval" where
  "message_json m = JObj [(''role'', JStr (role m)), (''content'', JStr (content m))]"

definition chat_native_body :: "NosanaLLM \<Rightarrow> ChatMessage list \<Rightarrow> jsval" where
  "chat_native_body self messages =
     JObj [(''model'', JStr (model self)), (''messages'', JArr (map message_json messages)),
           (''stream'', JBool False)]"

definition chatNativeOllama ::
  "'w transport \<Rightarrow> (jsval \<Rightarrow> string) \<Rightarrow> NosanaLLM \<Rightarrow> ChatMessage list \<Rightarrow> (jsval, 'w) io" where
  "chatNativeOllama transport stringify self messages =
     (let url = baseUrl self @ ''/api/chat'' in
      try_catch
        (bind_io (makeApiCall transport url (chat_native_body self messages))
           (\<lambda>resp. lift_e (parseResponse stringify resp ollama)))
        (\<lambda>error. throw (new_Error (''Native chat also failed: '' @ message error))))"

definition completions_body :: "NosanaLLM \<Rightarrow> jsval \<Rightarrow> jsval" where
  "completions_body self messages =
     JObj [(''model'', JStr (model self)), (''messages'', messages),
           (''temperature'', JNum (7 / 10)), (''max_tokens'', JNum 1000),
           (''stream'', JBool False)]"

text \<open>The messages of a single-turn call: one user message holding the prompt.\<close>

definition user_messages :: "string \<Rightarrow> jsval" where
  "user_messages prompt = JArr [JObj [(''role'', JStr ''user''), (''content'', JStr prompt)]]"

text \<open>
  \<^verbatim>\<open>generate(prompt)\<close> and \<^verbatim>\<open>chat(messages)\<close>: the POST and the parse are both inside
  the \<^verbatim>\<open>try\<close> block, so the handler also receives what the parser throws.  Console
  output is not modelled.
\<close>

definition generate ::
  "'w transport \<Rightarrow> (jsval \<Rightarrow> string) \<Rightarrow> NosanaLLM \<Rightarrow> string \<Rightarrow> (jsval, 'w) io" where
  "generate transport stringify self prompt =
     (let url = baseUrl self @ ''/v1/chat/completions'' in
      try_catch
        (bind_io
           (makeApiCall transport url
              (completions_body self (user_messages prompt)))
           (\<lambda>resp. lift_e (parseResponse stringify resp openai)))
        (\<lambda>error. handleApiError stringify error url
                    (generateNativeOllama transport stringify self prompt)))"

definition chat ::
  "'w transport \<Rightarrow> (jsval \<Rightarrow> string) \<Rightarrow> NosanaLLM \<Rightarrow> ChatMessage list \<Rightarrow> (jsval, 'w) io" where
  "chat transport stringify self messages =
     (let url = baseUrl self @ ''/v1/chat/completions'' in
      try_catch
        (bind_io
           (makeApiCall transport url
              (completions_body self (JArr (map message_json messages))))
           (\<lambda>resp. lift_e (parseResponse stringify resp openai)))
        (\<lambda>error. handleApiError stringify error url
                    (chatNativeOllama transport stringify self messages)))"

section \<open>tools/scraper.ts\<close>

record SearchResult =
  title :: string
  url :: string
  snippet :: string

record BrightDataScraper =
  apiToken :: string
  zone :: string

definition new_BrightDataScraper :: "string \<Rightarrow> string option \<Rightarrow> BrightDataScraper" where
  "new_BrightDataScraper token zone_arg =
     \<lparr>apiToken = token, zone = (case zone_arg of None \<Rightarrow> ''serp_api1'' | Some z \<Rightarrow> z)\<rparr>"

text \<open>
  \<^verbatim>\<open>formatRawResults(data)\<close>; \<^verbatim>\<open>stringify2\<close> is \<^verbatim>\<open>JSON.stringify(v, null, 2)\<close>,
  and \<^verbatim>\<open>substring(0, 5000)\<close> keeps the first 5000 code units.
\<close>

definition dataString :: "(jsval \<Rightarrow> string) \<Rightarrow> jsval \<Rightarrow> string" where
  "dataString stringify2 d = (case d of JStr s \<Rightarrow> s | _ \<Rightarrow> stringify2 d)"

definition formatRawResults :: "(jsval \<Rightarrow> string) \<Rightarrow> jsval \<Rightarrow> SearchResult list" where
  "formatRawResults stringify2 d =
     (if \<not> truthy d then []
      else [\<lparr>title = ''Search Results'', url = ''https://www.google.com'',
             snippet = take 5000 (dataString stringify2 d)\<rparr>])"

text \<open>
  \<^verbatim>\<open>searchWeb(query, limit = 5)\<close>.  \<^verbatim>\<open>encodeURIComponent\<close> is a parameter: it throws
  a URIError on a lone surrogate, inside the \<^verbatim>\<open>try\<close> block.  The \<^verbatim>\<open>catch\<close> block
  logs and returns the empty array.
\<close>

definition search_request :: "BrightDataScraper \<Rightarrow> string \<Rightarrow> axios_post" where
  "search_request self q =
     (let searchUrl = ''https://www.google.com/search?q='' @ q @ ''&hl=en&gl=us'' in
      \<lparr>post_url = ''https://api.brightdata.com'' @ ''/request'',
       post_data = JObj [(''zone'', JStr (zone self)), (''url'', JStr searchUrl),
                         (''format'', JStr ''json'')],
       post_headers = [(''Authorization'', ''Bearer '' @ apiToken self),
                       (''Content-Type'', ''application/json'')],
       post_params = [(''brd_json'', JNum 1)],
       post_timeout = None\<rparr>)"

definition searchWeb ::
  "'w transport \<Rightarrow> (jsval \<Rightarrow> string) \<Rightarrow> (string \<Rightarrow> js_error + string) \<Rightarrow>
   BrightDataScraper \<Rightarrow> string \<Rightarrow> rat option \<Rightarrow> (SearchResult list, 'w) io" where
  "searchWeb transport stringify2 encodeURIComponent self query limit =
     try_catch
       (bind_io (lift_e (encodeURIComponent query)) (\<lambda>q.
          bind_io (axios_call transport (search_request self q))
            (\<lambda>resp. ret (formatRawResults stringify2 (data resp)))))
       (\<lambda>error. ret [])"

section \<open>Vocabulary of the properties\<close>

text \<open>
  One attempt against the backend, in world \<open>w\<close>: the POST, then the parse of what came
  back.  It fails when the POST fails or when the parser rejects the payload.
\<close>

definition attempt ::
  "'w transport \<Rightarrow> (jsval \<Rightarrow> string) \<Rightarrow> axios_post \<Rightarrow> format \<Rightarrow> 'w \<Rightarrow> (js_error + jsval) \<times> 'w" where
  "attempt transport stringify req fmt w =
     (case transport req w of
        (Inl e, w') \<Rightarrow> (Inl e, w')
      | (Inr resp, w') \<Rightarrow> (parseResponse stringify resp fmt, w'))"

text \<open>The requests made between two states of the log, and how many went to one address.\<close>

definition new_calls :: "'w net \<Rightarrow> 'w net \<Rightarrow> axios_post list" where
  "new_calls s s' = drop (length (calls s)) (calls s')"

definition calls_to :: "string \<Rightarrow> axios_post list \<Rightarrow> nat" where
  "calls_to u cs = length (filter (\<lambda>c. post_url c = u) cs)"

text \<open>
  The POST of \<open>req\<close> in world \<open>w\<close> fails with an HTTP response: axios throws an error
  that carries the response \<open>r\<close>, and the world is left in \<open>w'\<close>.
\<close>

definition http_failure :: "'w transport \<Rightarrow> axios_post \<Rightarrow> 'w \<Rightarrow> (axios_response \<times> 'w) option" where
  "http_failure transport req w =
     (case transport req w of
        (Inl err, w') \<Rightarrow> (case response err of Some r \<Rightarrow> Some (r, w') | None \<Rightarrow> None)
      | (Inr resp, w') \<Rightarrow> None)"

text \<open>
  The property \<open>k\<close> of a payload: \<^verbatim>\<open>undefined\<close> when the payload is not an object or
  has no such property.  A payload has the alternate shape when its \<^verbatim>\<open>response\<close> is
  truthy, or its \<^verbatim>\<open>message\<close> has a truthy \<^verbatim>\<open>content\<close>.
\<close>

fun field_of :: "jsval \<Rightarrow> string \<Rightarrow> jsval" where
  "field_of (JObj kvs) k = (case map_of kvs k of Some v \<Rightarrow> v | None \<Rightarrow> JUndefined)"
| "field_of v k = JUndefined"

definition alternate_shape :: "jsval \<Rightarrow> bool" where
  "alternate_shape d =
     (truthy (field_of d ''response'') \<or> truthy (field_of (field_of d ''message'') ''content''))"

section \<open>Example backends\<close>

text \<open>
  Backends without a state of their own, given by what each address answers; an address
  that is not listed refuses the connection.
\<close>

definition http_error :: "nat \<Rightarrow> js_error" where
  "http_error st =
     \<lparr>kind = AxiosError, message = ''Request failed with status code '' @ show_nat st,
      response = Some \<lparr>status = st, data = JObj []\<rparr>, request = True\<rparr>"

definition network_error :: js_error where
  "network_error =
     \<lparr>kind = AxiosError, message = ''connect ECONNREFUSED'', response = None, request = True\<rparr>"

definition route :: "(string \<times> (js_error + axios_response)) list \<Rightarrow> unit transport" where
  "route table =
     (\<lambda>req w. (case map_of table (post_url req) of Some x \<Rightarrow> x | None \<Rightarrow> Inl network_error, w))"

definition example_llm :: NosanaLLM where
  "example_llm = \<lparr>baseUrl = ''http://host'', model = ''ollama:0.12''\<rparr>"

definition example_scraper :: BrightDataScraper where
  "example_scraper = \<lparr>apiToken = ''token'', zone = ''serp_api1''\<rparr>"

definition start :: "unit net" where
  "start = \<lparr>world = (), calls = []\<rparr>"

section \<open>Properties of the base-address normalization\<close>











section \<open>Properties of the model resolution\<close>

text \<open>
  C3, as the code has it.  The constructor takes \<^verbatim>\<open>model || process.env.NOSANA_MODEL ||
  'ollama:0.12'\<close>: a non-empty model argument is used whatever the environment holds;
  an empty argument counts as none; without an argument the environment's value is used
  when it is set and non-empty, and the default \<^verbatim>\<open>ollama:0.12\<close> otherwise.
\<close>

theorem model_resolution:
  "(m \<noteq> [] \<longrightarrow> model (new_NosanaLLM env u (Some m)) = m)
   \<and> model (new_NosanaLLM env u (Some [])) = model (new_NosanaLLM env u None)
   \<and> (e \<noteq> [] \<longrightarrow> model (new_NosanaLLM (Some e) u None) = e)
   \<and> model (new_NosanaLLM (Some []) u None) = ''ollama:0.12''
   \<and> model (new_NosanaLLM None u None) = ''ollama:0.12''"
  by (simp add: new_NosanaLLM_def or_else_def)

theorem model_resolution_witness:
  "''llama3'' \<noteq> []
   \<and> model (new_NosanaLLM (Some ''qwen'') ''http://host'' (Some ''llama3'')) = ''llama3''
   \<and> ''qwen'' \<noteq> []
   \<and> model (new_NosanaLLM (Some ''qwen'') ''http://host'' None) = ''qwen''"
  using model_resolution[of "''llama3''" "Some ''qwen''" "''http://host''" "''qwen''"]
  by simp

text \<open>
  C3 as stated (every supplied argument is used; the environment's value is used if
  present) fails on the empty string: an empty model argument yields the environment's
  model, and an empty environment value yields the default.
\<close>

theorem model_resolution_empty_string:
  "model (new_NosanaLLM (Some ''qwen'') ''http://host'' (Some '''')) = ''qwen''
   \<and> model (new_NosanaLLM (Some ''qwen'') ''http://host'' (Some '''')) \<noteq> ''''
   \<and> model (new_NosanaLLM (Some '''') ''http://host'' None) = ''ollama:0.12''
   \<and> model (new_NosanaLLM (Some '''') ''http://host'' None) \<noteq> ''''"
  by (simp add: new_NosanaLLM_def or_else_def)

section \<open>Properties of the response parser\<close>

lemma get_prop_Inr_truthy:
  "get_prop d k = Inr v \<Longrightarrow> truthy v \<Longrightarrow> \<exists>kvs. d = JObj kvs \<and> map_of kvs k = Some v"
  by (cases d) (auto split: option.splits)

lemma get_prop_Inl: "get_prop d k = Inl e \<Longrightarrow> \<not> truthy d"
  by (cases d) auto

lemma array_nonempty:
  "isArray a \<Longrightarrow> 0 < array_length a \<Longrightarrow> \<exists>c cs. a = JArr (c # cs) \<and> get_index a 0 = c"
  by (cases a) (auto simp: neq_Nil_conv)

lemma parse_openai_Inr:
  assumes "parseResponse sf r openai = Inr v"
  shows "\<exists>kvs c cs ckvs mkvs.
        data r = JObj kvs \<and> map_of kvs ''choices'' = Some (JArr (c # cs))
        \<and> c = JObj ckvs \<and> map_of ckvs ''message'' = Some (JObj mkvs)
        \<and> map_of mkvs ''content'' = Some v \<and> truthy v"
proof -
  from assms obtain choices where
    1: "get_prop (data r) ''choices'' = Inr choices"
      "truthy choices" "isArray choices" "0 < array_length choices"
    and rest: "bind_e (get_prop (get_index choices 0) ''message'') (\<lambda>msg.
             if \<not> truthy msg then Inl (new_Error (''Invalid response format: '' @ sf (data r)))
             else bind_e (get_prop msg ''content'') (\<lambda>content.
               if truthy content then Inr content
               else Inl (new_Error (''Invalid response format: '' @ sf (data r))))) = Inr v"
    by (auto simp: parseResponse_def bind_e_def Let_def split: if_splits sum.splits)
  from rest obtain msg where
    2: "get_prop (get_index choices 0) ''message'' = Inr msg" "truthy msg"
    and 3: "get_prop msg ''content'' = Inr v" "truthy v"
    by (auto simp: bind_e_def split: if_splits sum.splits)
  from 1 obtain kvs where k: "data r = JObj kvs" "map_of kvs ''choices'' = Some choices"
    using get_prop_Inr_truthy by blast
  from 1 obtain c cs where c: "choices = JArr (c # cs)" "get_index choices 0 = c"
    using array_nonempty by blast
  from 2 c obtain ckvs where ck: "c = JObj ckvs" "map_of ckvs ''message'' = Some msg"
    using get_prop_Inr_truthy by metis
  from 3 obtain mkvs where mk: "msg = JObj mkvs" "map_of mkvs ''content'' = Some v"
    using get_prop_Inr_truthy by blast
  show ?thesis using k c ck mk 3 by blast
qed

text \<open>The alternate-format parse fails in one way only.\<close>

lemma parse_ollama_Inl:
  "parseResponse sf r ollama = Inl e \<Longrightarrow>
     e = new_Error (''Invalid response format: '' @ sf (data r))"
  by (auto simp: parseResponse_def bind_e_def Let_def split: if_splits sum.splits
           dest: get_prop_Inl)

text \<open>
  Every way the primary-format parse can fail: with the invalid-format error, or, when
  the first element of \<^verbatim>\<open>choices\<close> is \<^verbatim>\<open>null\<close>, with the TypeError of reading
  \<^verbatim>\<open>message\<close> from it.
\<close>

lemma parse_openai_Inl:
  assumes "parseResponse sf r openai = Inl e"
  shows "e = new_Error (''Invalid response format: '' @ sf (data r))
     \<or> (\<exists>kvs c cs. data r = JObj kvs \<and> map_of kvs ''choices'' = Some (JArr (c # cs))
          \<and> (c = JNull \<or> c = JUndefined) \<and> kind e = TypeError)"
proof (cases "e = new_Error (''Invalid response format: '' @ sf (data r))")
  case True
  then show ?thesis by simp
next
  case False
  with assms obtain choices where
    1: "get_prop (data r) ''choices'' = Inr choices"
      "truthy choices" "isArray choices" "0 < array_length choices"
    and 2: "get_prop (get_index choices 0) ''message'' = Inl e"
    by (auto simp: parseResponse_def bind_e_def Let_def split: if_splits sum.splits
             dest: get_prop_Inl)
  from 1 obtain kvs where k: "data r = JObj kvs" "map_of kvs ''choices'' = Some choices"
    using get_prop_Inr_truthy by blast
  from 1 obtain c cs where c: "choices = JArr (c # cs)" "get_index choices 0 = c"
    using array_nonempty by blast
  from 2 c have "(c = JNull \<or> c = JUndefined) \<and> kind e = TypeError"
    by (cases c) (auto simp: new_TypeError_def)
  then show ?thesis using k c by blast
qed

text \<open>
  C4, as the code has it.  The alternate-format parser tests the fields for truthiness:
  a payload whose \<^verbatim>\<open>response\<close> field is truthy (a non-empty string, say) parses to
  that value, also when \<^verbatim>\<open>message.content\<close> is there too; a payload whose
  \<^verbatim>\<open>response\<close> field is missing or falsy and whose \<^verbatim>\<open>message\<close> is an object with a
  truthy \<^verbatim>\<open>content\<close> parses to that content.
\<close>

theorem parse_ollama:
  "(data r = JObj kvs \<and> map_of kvs ''response'' = Some v \<and> truthy v
      \<longrightarrow> parseResponse sf r ollama = Inr v)
   \<and> (data r = JObj kvs
       \<and> (map_of kvs ''response'' = None \<or> (\<exists>u. map_of kvs ''response'' = Some u \<and> \<not> truthy u))
       \<and> map_of kvs ''message'' = Some (JObj mkvs) \<and> map_of mkvs ''content'' = Some c \<and> truthy c
      \<longrightarrow> parseResponse sf r ollama = Inr c)"
  by (auto simp: parseResponse_def bind_e_def)

theorem parse_ollama_witness:
  "parseResponse (\<lambda>v. ''{}'') \<lparr>status = 200, data = JObj [(''response'', JStr ''hi'')]\<rparr> ollama
     = Inr (JStr ''hi'')
   \<and> parseResponse (\<lambda>v. ''{}'')
       \<lparr>status = 200, data = JObj [(''message'', JObj [(''content'', JStr ''hi'')])]\<rparr> ollama
     = Inr (JStr ''hi'')
   \<and> parseResponse (\<lambda>v. ''{}'')
       \<lparr>status = 200, data = JObj [(''response'', JStr ''first''),
          (''message'', JObj [(''content'', JStr ''second'')])]\<rparr> ollama
     = Inr (JStr ''first'')"
  using parse_ollama[of "\<lparr>status = 200, data = JObj [(''response'', JStr ''hi'')]\<rparr>"
      "[(''response'', JStr ''hi'')]" "JStr ''hi''" "\<lambda>v. ''{}''" "[]" JNull]
    parse_ollama[of "\<lparr>status = 200, data = JObj [(''message'', JObj [(''content'', JStr ''hi'')])]\<rparr>"
      "[(''message'', JObj [(''content'', JStr ''hi'')])]" JNull "\<lambda>v. ''{}''"
      "[(''content'', JStr ''hi'')]" "JStr ''hi''"]
    parse_ollama[of "\<lparr>status = 200, data = JObj [(''response'', JStr ''first''),
          (''message'', JObj [(''content'', JStr ''second'')])]\<rparr>"
      "[(''response'', JStr ''first''), (''message'', JObj [(''content'', JStr ''second'')])]"
      "JStr ''first''" "\<lambda>v. ''{}''" "[]" JNull]
  by simp

text \<open>
  C4 as stated (a payload that has a \<^verbatim>\<open>response\<close> field parses to its value, and
  \<^verbatim>\<open>response\<close> wins when both fields are present) fails when the field holds the empty
  string: \<^verbatim>\<open>{response: ""}\<close> is rejected, and with \<^verbatim>\<open>message.content\<close> present the
  content is returned, not the response.
\<close>

theorem parse_ollama_empty_response:
  "map_of [(''response'', JStr '''')] ''response'' = Some (JStr '''')
   \<and> parseResponse (\<lambda>v. ''<payload>'')
        \<lparr>status = 200, data = JObj [(''response'', JStr '''')]\<rparr> ollama
       = Inl (new_Error ''Invalid response format: <payload>'')
   \<and> parseResponse (\<lambda>v. ''<payload>'')
        \<lparr>status = 200, data = JObj [(''response'', JStr ''''),
           (''message'', JObj [(''content'', JStr ''hi'')])]\<rparr> ollama
       = Inr (JStr ''hi'')"
  by (simp add: parseResponse_def bind_e_def)

text \<open>
  C5, as the code has it.  The primary-format parse succeeds with \<open>v\<close> exactly when the
  payload is an object whose \<^verbatim>\<open>choices\<close> is a non-empty array, whose first element is
  an object with a \<^verbatim>\<open>message\<close> object, whose \<^verbatim>\<open>content\<close> is \<open>v\<close> and truthy (a
  non-empty string, a number other than 0, \<^verbatim>\<open>true\<close>, any array or object); the value
  is returned as it is.  \<^verbatim>\<open>{choices:[{message:{content:"hi"}}]}\<close> parses to \<^verbatim>\<open>"hi"\<close>.
\<close>

theorem parse_openai:
  "(parseResponse sf r openai = Inr v \<longleftrightarrow>
     (\<exists>kvs c cs ckvs mkvs.
        data r = JObj kvs \<and> map_of kvs ''choices'' = Some (JArr (c # cs))
        \<and> c = JObj ckvs \<and> map_of ckvs ''message'' = Some (JObj mkvs)
        \<and> map_of mkvs ''content'' = Some v \<and> truthy v))
   \<and> parseResponse sf \<lparr>status = 200, data = JObj [(''choices'',
         JArr [JObj [(''message'', JObj [(''content'', JStr ''hi'')])]])]\<rparr> openai = Inr (JStr ''hi'')"
proof -
  have "parseResponse sf r openai = Inr v"
    if "data r = JObj kvs" "map_of kvs ''choices'' = Some (JArr (JObj ckvs # cs))"
       "map_of ckvs ''message'' = Some (JObj mkvs)" "map_of mkvs ''content'' = Some v" "truthy v"
    for kvs cs ckvs mkvs
    using that by (simp add: parseResponse_def bind_e_def)
  moreover have "parseResponse sf \<lparr>status = 200, data = JObj [(''choices'',
         JArr [JObj [(''message'', JObj [(''content'', JStr ''hi'')])]])]\<rparr> openai = Inr (JStr ''hi'')"
    by (simp add: parseResponse_def bind_e_def)
  ultimately show ?thesis using parse_openai_Inr[of sf r v] by blast
qed

text \<open>
  C5 as stated (the parse succeeds only on a non-empty content, and returns that content
  string) fails on a content that is not a string: with the empty array as content the
  parse succeeds and returns the empty array, with the number 5 it returns the number.
\<close>

theorem parse_openai_content_not_a_string:
  "parseResponse (\<lambda>v. ''<payload>'') \<lparr>status = 200, data = JObj [(''choices'',
       JArr [JObj [(''message'', JObj [(''content'', JArr [])])]])]\<rparr> openai = Inr (JArr [])
   \<and> parseResponse (\<lambda>v. ''<payload>'') \<lparr>status = 200, data = JObj [(''choices'',
       JArr [JObj [(''message'', JObj [(''content'', JNum 5)])]])]\<rparr> openai = Inr (JNum 5)"
  by (simp add: parseResponse_def bind_e_def)

text \<open>
  C6 at the payload \<^verbatim>\<open>{choices:[null]}\<close>, which matches neither shape: the
  primary-format parse reads \<^verbatim>\<open>choices[0].message\<close> without a test of
  \<^verbatim>\<open>choices[0]\<close>, so what is thrown is the TypeError of that read, not the
  invalid-format error with the serialized payload.
\<close>

theorem parse_openai_null_choice:
  "parseResponse sf \<lparr>status = 200, data = JObj [(''choices'', JArr [JNull])]\<rparr> openai
     = Inl (new_TypeError (''Cannot read properties of null (reading '' @ [CHR 0x27]
              @ ''message'' @ [CHR 0x27] @ '')''))
   \<and> parseResponse sf \<lparr>status = 200, data = JObj [(''choices'', JArr [JNull])]\<rparr> openai
     \<noteq> Inl (new_Error (''Invalid response format: ''
              @ sf (JObj [(''choices'', JArr [JNull])])))"
  by (simp add: parseResponse_def bind_e_def new_TypeError_def new_Error_def)

section \<open>Properties of the calls\<close>

lemma http_failureD:
  "http_failure transport req w = Some (r, w') \<Longrightarrow>
     \<exists>err. transport req w = (Inl err, w') \<and> response err = Some r"
  by (auto simp: http_failure_def split: prod.splits sum.splits option.splits)

lemma makeApiCall_run:
  "transport (api_request u d) (world s) = (x, w') \<Longrightarrow>
     makeApiCall transport u d s = (x, \<lparr>world = w', calls = calls s @ [api_request u d]\<rparr>)"
  by (simp add: makeApiCall_def axios_call_def)

lemma native_try_run:
  "bind_io (makeApiCall transport u d) (\<lambda>resp. lift_e (parseResponse sf resp fmt)) s =
     (case attempt transport sf (api_request u d) fmt (world s) of
        (x, w') \<Rightarrow> (x, \<lparr>world = w', calls = calls s @ [api_request u d]\<rparr>))"
  by (simp add: bind_io_def makeApiCall_def axios_call_def attempt_def lift_e_def
           split: prod.splits sum.splits)

lemma generateNativeOllama_run:
  "generateNativeOllama transport sf self prompt s =
     (case attempt transport sf (api_request (baseUrl self @ ''/api/generate'')
              (generate_native_body self prompt)) ollama (world s) of
        (Inl e, w') \<Rightarrow>
          (Inl (new_Error ''Both API formats failed. Check Nosana documentation for correct endpoint.''),
           \<lparr>world = w', calls = calls s @ [api_request (baseUrl self @ ''/api/generate'')
              (generate_native_body self prompt)]\<rparr>)
      | (Inr v, w') \<Rightarrow>
          (Inr v, \<lparr>world = w', calls = calls s @ [api_request (baseUrl self @ ''/api/generate'')
              (generate_native_body self prompt)]\<rparr>))"
  by (simp add: generateNativeOllama_def Let_def try_catch_def native_try_run throw_def
           split: prod.splits sum.splits)

lemma chatNativeOllama_run:
  "chatNativeOllama transport sf self messages s =
     (case attempt transport sf (api_request (baseUrl self @ ''/api/chat'')
              (chat_native_body self messages)) ollama (world s) of
        (Inl e, w') \<Rightarrow>
          (Inl (new_Error (''Native chat also failed: '' @ message e)),
           \<lparr>world = w', calls = calls s @ [api_request (baseUrl self @ ''/api/chat'')
              (chat_native_body self messages)]\<rparr>)
      | (Inr v, w') \<Rightarrow>
          (Inr v, \<lparr>world = w', calls = calls s @ [api_request (baseUrl self @ ''/api/chat'')
              (chat_native_body self messages)]\<rparr>))"
  by (simp add: chatNativeOllama_def Let_def try_catch_def native_try_run throw_def
           split: prod.splits sum.splits)

lemma generate_primary_error:
  assumes "transport (api_request (baseUrl self @ ''/v1/chat/completions'')
              (completions_body self (user_messages prompt))) (world s) = (Inl err, w1)"
  shows "generate transport sf self prompt s =
     handleApiError sf err (baseUrl self @ ''/v1/chat/completions'')
       (generateNativeOllama transport sf self prompt)
       \<lparr>world = w1, calls = calls s @ [api_request (baseUrl self @ ''/v1/chat/completions'')
              (completions_body self (user_messages prompt))]\<rparr>"
  using assms
  by (simp add: generate_def Let_def try_catch_def bind_io_def makeApiCall_run user_messages_def)

lemma chat_primary_error:
  assumes "transport (api_request (baseUrl self @ ''/v1/chat/completions'')
              (completions_body self (JArr (map message_json messages)))) (world s) = (Inl err, w1)"
  shows "chat transport sf self messages s =
     handleApiError sf err (baseUrl self @ ''/v1/chat/completions'')
       (chatNativeOllama transport sf self messages)
       \<lparr>world = w1, calls = calls s @ [api_request (baseUrl self @ ''/v1/chat/completions'')
              (completions_body self (JArr (map message_json messages)))]\<rparr>"
  using assms
  by (simp add: chat_def Let_def try_catch_def bind_io_def makeApiCall_run)

lemma handleApiError_response:
  "response err = Some r \<Longrightarrow>
   handleApiError sf err u fallback s =
     (if status r = 404 \<or> status r = 405 then fallback s
      else (Inl (new_Error (''Nosana API Error '' @ show_nat (status r) @ '': '' @ sf (data r))), s))"
  by (simp add: handleApiError_def throw_def)

lemma calls_to_simps:
  "calls_to u [] = 0"
  "calls_to u (c # cs) = (if post_url c = u then Suc (calls_to u cs) else calls_to u cs)"
  by (simp_all add: calls_to_def)

lemma post_url_api_request: "post_url (api_request u d) = u"
  by (simp add: api_request_def)

lemmas example_eval =
  route_def example_llm_def start_def http_error_def network_error_def http_failure_def
  attempt_def api_request_def new_calls_def calls_to_def

text \<open>
  C1.  When the primary POST of \<^verbatim>\<open>generate\<close> or \<^verbatim>\<open>chat\<close> fails with an HTTP
  response, the alternate endpoint is called exactly once if and only if the status is
  404 or 405: with one of these the requests made are the primary and the alternate one,
  in this order; with any other status the call throws the error whose message holds the
  status code and the serialized body, and the primary request is the only one made.
\<close>

theorem fallback_on_404_405_only:
  "(http_failure transport (api_request (baseUrl self @ ''/v1/chat/completions'')
        (completions_body self (user_messages prompt))) (world s) = Some (r, w1) \<longrightarrow>
      (case generate transport sf self prompt s of (res, s') \<Rightarrow>
         (calls_to (baseUrl self @ ''/api/generate'') (new_calls s s') = 1
            \<longleftrightarrow> status r = 404 \<or> status r = 405)
         \<and> (status r \<noteq> 404 \<and> status r \<noteq> 405 \<longrightarrow>
              res = Inl (new_Error (''Nosana API Error '' @ show_nat (status r) @ '': ''
                      @ sf (data r)))
              \<and> new_calls s s' = [api_request (baseUrl self @ ''/v1/chat/completions'')
                      (completions_body self (user_messages prompt))])
         \<and> (status r = 404 \<or> status r = 405 \<longrightarrow>
              new_calls s s' = [api_request (baseUrl self @ ''/v1/chat/completions'')
                      (completions_body self (user_messages prompt)),
                    api_request (baseUrl self @ ''/api/generate'')
                      (generate_native_body self prompt)])))
   \<and> (http_failure transport (api_request (baseUrl self @ ''/v1/chat/completions'')
        (completions_body self (JArr (map message_json messages)))) (world s) = Some (r, w1) \<longrightarrow>
      (case chat transport sf self messages s of (res, s') \<Rightarrow>
         (calls_to (baseUrl self @ ''/api/chat'') (new_calls s s') = 1
            \<longleftrightarrow> status r = 404 \<or> status r = 405)
         \<and> (status r \<noteq> 404 \<and> status r \<noteq> 405 \<longrightarrow>
              res = Inl (new_Error (''Nosana API Error '' @ show_nat (status r) @ '': ''
                      @ sf (data r)))
              \<and> new_calls s s' = [api_request (baseUrl self @ ''/v1/chat/completions'')
                      (completions_body self (JArr (map message_json messages)))])
         \<and> (status r = 404 \<or> status r = 405 \<longrightarrow>
              new_calls s s' = [api_request (baseUrl self @ ''/v1/chat/completions'')
                      (completions_body self (JArr (map message_json messages))),
                    api_request (baseUrl self @ ''/api/chat'')
                      (chat_native_body self messages)])))"
proof (intro conjI impI)
  assume "http_failure transport (api_request (baseUrl self @ ''/v1/chat/completions'')
        (completions_body self (user_messages prompt))) (world s) = Some (r, w1)"
  then obtain err where e: "transport (api_request (baseUrl self @ ''/v1/chat/completions'')
        (completions_body self (user_messages prompt))) (world s) = (Inl err, w1)"
      "response err = Some r"
    by (auto dest: http_failureD)
  show "case generate transport sf self prompt s of (res, s') \<Rightarrow>
         (calls_to (baseUrl self @ ''/api/generate'') (new_calls s s') = 1
            \<longleftrightarrow> status r = 404 \<or> status r = 405)
         \<and> (status r \<noteq> 404 \<and> status r \<noteq> 405 \<longrightarrow>
              res = Inl (new_Error (''Nosana API Error '' @ show_nat (status r) @ '': ''
                      @ sf (data r)))
              \<and> new_calls s s' = [api_request (baseUrl self @ ''/v1/chat/completions'')
                      (completions_body self (user_messages prompt))])
         \<and> (status r = 404 \<or> status r = 405 \<longrightarrow>
              new_calls s s' = [api_request (baseUrl self @ ''/v1/chat/completions'')
                      (completions_body self (user_messages prompt)),
                    api_request (baseUrl self @ ''/api/generate'')
                      (generate_native_body self prompt)])"
    using e by (simp add: generate_primary_error handleApiError_response
          generateNativeOllama_run new_calls_def calls_to_simps post_url_api_request
          split: prod.splits sum.splits)
next
  assume "http_failure transport (api_request (baseUrl self @ ''/v1/chat/completions'')
        (completions_body self (JArr (map message_json messages)))) (world s) = Some (r, w1)"
  then obtain err where e: "transport (api_request (baseUrl self @ ''/v1/chat/completions'')
        (completions_body self (JArr (map message_json messages)))) (world s) = (Inl err, w1)"
      "response err = Some r"
    by (auto dest: http_failureD)
  show "case chat transport sf self messages s of (res, s') \<Rightarrow>
         (calls_to (baseUrl self @ ''/api/chat'') (new_calls s s') = 1
            \<longleftrightarrow> status r = 404 \<or> status r = 405)
         \<and> (status r \<noteq> 404 \<and> status r \<noteq> 405 \<longrightarrow>
              res = Inl (new_Error (''Nosana API Error '' @ show_nat (status r) @ '': ''
                      @ sf (data r)))
              \<and> new_calls s s' = [api_request (baseUrl self @ ''/v1/chat/completions'')
                      (completions_body self (JArr (map message_json messages)))])
         \<and> (status r = 404 \<or> status r = 405 \<longrightarrow>
              new_calls s s' = [api_request (baseUrl self @ ''/v1/chat/completions'')
                      (completions_body self (JArr (map message_json messages))),
                    api_request (baseUrl self @ ''/api/chat'')
                      (chat_native_body self messages)])"
    using e by (simp add: chat_primary_error handleApiError_response
          chatNativeOllama_run new_calls_def calls_to_simps post_url_api_request
          split: prod.splits sum.splits)
qed


theorem fallback_on_404_405_only_witness:
  "http_failure (route [(''http://host/v1/chat/completions'', Inl (http_error 500))])
     (api_request (baseUrl example_llm @ ''/v1/chat/completions'')
        (completions_body example_llm (user_messages ''hi'')))
     (world start) = Some (\<lparr>status = 500, data = JObj []\<rparr>, ())
   \<and> fst (generate (route [(''http://host/v1/chat/completions'', Inl (http_error 500))])
         (\<lambda>v. ''{}'') example_llm ''hi'' start) = Inl (new_Error ''Nosana API Error 500: {}'')
   \<and> calls_to ''http://host/api/generate''
        (new_calls start (snd (generate (route [(''http://host/v1/chat/completions'', Inl (http_error 500))])
         (\<lambda>v. ''{}'') example_llm ''hi'' start))) = 0
   \<and> http_failure (route [(''http://host/v1/chat/completions'', Inl (http_error 404))])
     (api_request (baseUrl example_llm @ ''/v1/chat/completions'')
        (completions_body example_llm (JArr (map message_json [\<lparr>role = ''user'', content = ''hi''\<rparr>]))))
     (world start) = Some (\<lparr>status = 404, data = JObj []\<rparr>, ())
   \<and> calls_to ''http://host/api/chat''
        (new_calls start (snd (chat (route [(''http://host/v1/chat/completions'', Inl (http_error 404))])
         (\<lambda>v. ''{}'') example_llm [\<lparr>role = ''user'', content = ''hi''\<rparr>] start))) = 1"
  using fallback_on_404_405_only[of
      "route [(''http://host/v1/chat/completions'', Inl (http_error 500))]"
      example_llm "''hi''" start "\<lparr>status = 500, data = JObj []\<rparr>" "()" "\<lambda>v. ''{}''" "[]"]
    fallback_on_404_405_only[of
      "route [(''http://host/v1/chat/completions'', Inl (http_error 404))]"
      example_llm "''hi''" start "\<lparr>status = 404, data = JObj []\<rparr>" "()" "\<lambda>v. ''{}''"
      "[\<lparr>role = ''user'', content = ''hi''\<rparr>]"]
  by (simp add: example_eval show_nat.simps split: prod.splits)

lemma generate_fallback_run:
  assumes "http_failure transport (api_request (baseUrl self @ ''/v1/chat/completions'')
        (completions_body self (user_messages prompt))) (world s) = Some (r, w1)"
    and "status r = 404 \<or> status r = 405"
  shows "generate transport sf self prompt s =
     generateNativeOllama transport sf self prompt
       \<lparr>world = w1, calls = calls s @ [api_request (baseUrl self @ ''/v1/chat/completions'')
              (completions_body self (user_messages prompt))]\<rparr>"
proof -
  from assms(1) obtain err where e: "transport (api_request (baseUrl self @ ''/v1/chat/completions'')
        (completions_body self (user_messages prompt))) (world s) = (Inl err, w1)"
      "response err = Some r"
    by (auto dest: http_failureD)
  then show ?thesis using assms(2)
    by (simp add: generate_primary_error handleApiError_response)
qed

lemma chat_fallback_run:
  assumes "http_failure transport (api_request (baseUrl self @ ''/v1/chat/completions'')
        (completions_body self (JArr (map message_json messages)))) (world s) = Some (r, w1)"
    and "status r = 404 \<or> status r = 405"
  shows "chat transport sf self messages s =
     chatNativeOllama transport sf self messages
       \<lparr>world = w1, calls = calls s @ [api_request (baseUrl self @ ''/v1/chat/completions'')
              (completions_body self (JArr (map message_json messages)))]\<rparr>"
proof -
  from assms(1) obtain err where e: "transport (api_request (baseUrl self @ ''/v1/chat/completions'')
        (completions_body self (JArr (map message_json messages)))) (world s) = (Inl err, w1)"
      "response err = Some r"
    by (auto dest: http_failureD)
  then show ?thesis using assms(2)
    by (simp add: chat_primary_error handleApiError_response)
qed

text \<open>
  C7, as the code has it.  When the primary POST fails with status 404 or 405 and the
  alternate attempt (its POST, or the parse of its answer) fails too, the caller gets a
  terminal error and no third request is made.  For \<^verbatim>\<open>generate\<close> the error has the
  fixed message \<^verbatim>\<open>Both API formats failed. Check Nosana documentation for correct
  endpoint.\<close>, which holds nothing of the underlying failure (that is only logged); for
  \<^verbatim>\<open>chat\<close> the message is \<^verbatim>\<open>Native chat also failed: \<close> followed by the underlying
  failure's message.
\<close>

theorem alternate_failure_is_terminal:
  "(http_failure transport (api_request (baseUrl self @ ''/v1/chat/completions'')
        (completions_body self (user_messages prompt))) (world s) = Some (r, w1)
    \<and> (status r = 404 \<or> status r = 405)
    \<and> attempt transport sf (api_request (baseUrl self @ ''/api/generate'')
          (generate_native_body self prompt)) ollama w1 = (Inl e2, w2)
    \<longrightarrow> generate transport sf self prompt s =
          (Inl (new_Error ''Both API formats failed. Check Nosana documentation for correct endpoint.''),
           \<lparr>world = w2,
            calls = calls s @ [api_request (baseUrl self @ ''/v1/chat/completions'')
                                 (completions_body self (user_messages prompt)),
                               api_request (baseUrl self @ ''/api/generate'')
                                 (generate_native_body self prompt)]\<rparr>))
   \<and> (http_failure transport (api_request (baseUrl self @ ''/v1/chat/completions'')
        (completions_body self (JArr (map message_json messages)))) (world s) = Some (r, w1)
    \<and> (status r = 404 \<or> status r = 405)
    \<and> attempt transport sf (api_request (baseUrl self @ ''/api/chat'')
          (chat_native_body self messages)) ollama w1 = (Inl e2, w2)
    \<longrightarrow> chat transport sf self messages s =
          (Inl (new_Error (''Native chat also failed: '' @ message e2)),
           \<lparr>world = w2,
            calls = calls s @ [api_request (baseUrl self @ ''/v1/chat/completions'')
                                 (completions_body self (JArr (map message_json messages))),
                               api_request (baseUrl self @ ''/api/chat'')
                                 (chat_native_body self messages)]\<rparr>))"
  by (simp add: generate_fallback_run chat_fallback_run generateNativeOllama_run
        chatNativeOllama_run)

theorem alternate_failure_is_terminal_witness:
  "http_failure (route [(''http://host/v1/chat/completions'', Inl (http_error 404))])
     (api_request (baseUrl example_llm @ ''/v1/chat/completions'')
        (completions_body example_llm (user_messages ''hi''))) (world start)
     = Some (\<lparr>status = 404, data = JObj []\<rparr>, ())
   \<and> attempt (route [(''http://host/v1/chat/completions'', Inl (http_error 404))]) (\<lambda>v. ''{}'')
       (api_request (baseUrl example_llm @ ''/api/generate'')
          (generate_native_body example_llm ''hi'')) ollama () = (Inl network_error, ())
   \<and> fst (generate (route [(''http://host/v1/chat/completions'', Inl (http_error 404))])
          (\<lambda>v. ''{}'') example_llm ''hi'' start)
     = Inl (new_Error ''Both API formats failed. Check Nosana documentation for correct endpoint.'')
   \<and> fst (chat (route [(''http://host/v1/chat/completions'', Inl (http_error 404))])
          (\<lambda>v. ''{}'') example_llm [\<lparr>role = ''user'', content = ''hi''\<rparr>] start)
     = Inl (new_Error ''Native chat also failed: connect ECONNREFUSED'')
   \<and> map post_url (calls (snd (chat (route [(''http://host/v1/chat/completions'', Inl (http_error 404))])
          (\<lambda>v. ''{}'') example_llm [\<lparr>role = ''user'', content = ''hi''\<rparr>] start)))
     = [''http://host/v1/chat/completions'', ''http://host/api/chat'']"
  using alternate_failure_is_terminal[of
      "route [(''http://host/v1/chat/completions'', Inl (http_error 404))]"
      example_llm "''hi''" start "\<lparr>status = 404, data = JObj []\<rparr>" "()" "\<lambda>v. ''{}''"
      network_error "()" "[\<lparr>role = ''user'', content = ''hi''\<rparr>]"]
  by (simp add: example_eval)

text \<open>
  C7 as stated (the terminal error wraps the underlying failure's message, for the
  single-turn call too) fails for \<^verbatim>\<open>generate\<close>: when the alternate POST is refused
  with \<^verbatim>\<open>connect ECONNREFUSED\<close>, the message raised does not contain that text, and
  it is the same message that an HTTP 500 from the alternate endpoint produces.
\<close>

theorem generate_drops_underlying_message:
  "attempt (route [(''http://host/v1/chat/completions'', Inl (http_error 404))]) (\<lambda>v. ''{}'')
       (api_request (baseUrl example_llm @ ''/api/generate'')
          (generate_native_body example_llm ''hi'')) ollama () = (Inl network_error, ())
   \<and> message network_error = ''connect ECONNREFUSED''
   \<and> fst (generate (route [(''http://host/v1/chat/completions'', Inl (http_error 404))])
          (\<lambda>v. ''{}'') example_llm ''hi'' start)
     = Inl (new_Error ''Both API formats failed. Check Nosana documentation for correct endpoint.'')
   \<and> \<not> sublist ''connect ECONNREFUSED''
        (message (new_Error ''Both API formats failed. Check Nosana documentation for correct endpoint.''))
   \<and> fst (generate (route [(''http://host/v1/chat/completions'', Inl (http_error 404)),
                            (''http://host/api/generate'', Inl (http_error 500))])
          (\<lambda>v. ''{}'') example_llm ''hi'' start)
     = Inl (new_Error ''Both API formats failed. Check Nosana documentation for correct endpoint.'')"
proof -
  have "\<not> sublist ''connect ECONNREFUSED''
        ''Both API formats failed. Check Nosana documentation for correct endpoint.''"
    by (simp add: sublist_Cons_right)
  then show ?thesis
    by (simp add: example_eval generate_def generateNativeOllama_def handleApiError_def
          try_catch_def bind_io_def makeApiCall_def axios_call_def lift_e_def throw_def
          user_messages_def completions_body_def generate_native_body_def new_Error_def Let_def)
qed

text \<open>
  What the alternate-format parser does, by the shape of the payload alone: it accepts
  exactly the payloads of the alternate shape, and rejects every other one with the
  invalid-format error.
\<close>

lemma get_prop_field_of: "truthy d \<Longrightarrow> get_prop d k = Inr (field_of d k)"
  by (cases d) simp_all

lemma field_of_falsy: "\<not> truthy d \<Longrightarrow> field_of d k = JUndefined"
  by (cases d) simp_all

lemma parseResponse_ollama_shape:
  "parseResponse sf r ollama =
     (if truthy (field_of (data r) ''response'') then Inr (field_of (data r) ''response'')
      else if truthy (field_of (field_of (data r) ''message'') ''content'')
           then Inr (field_of (field_of (data r) ''message'') ''content'')
           else Inl (new_Error (''Invalid response format: '' @ sf (data r))))"
proof (cases "truthy (data r)")
  case True
  show ?thesis
  proof (cases "truthy (field_of (data r) ''message'')")
    case True
    with \<open>truthy (data r)\<close> show ?thesis
      by (simp add: parseResponse_def bind_e_def get_prop_field_of)
  next
    case False
    with \<open>truthy (data r)\<close> show ?thesis
      by (simp add: parseResponse_def bind_e_def get_prop_field_of field_of_falsy)
  qed
next
  case False
  then show ?thesis
    by (simp add: parseResponse_def field_of_falsy)
qed

lemma ollama_rejects_nonmatching:
  "\<not> alternate_shape (data r) \<Longrightarrow>
     parseResponse sf r ollama = Inl (new_Error (''Invalid response format: '' @ sf (data r)))"
  by (simp add: parseResponse_ollama_shape alternate_shape_def)

lemma ollama_accepts_matching:
  "alternate_shape (data r) \<Longrightarrow> \<exists>v. parseResponse sf r ollama = Inr v"
  by (auto simp: parseResponse_ollama_shape alternate_shape_def)

lemma alternate_shape_explicit:
  "alternate_shape d \<longleftrightarrow>
     (\<exists>kvs v. d = JObj kvs \<and> map_of kvs ''response'' = Some v \<and> truthy v)
     \<or> (\<exists>kvs mkvs c. d = JObj kvs \<and> map_of kvs ''message'' = Some (JObj mkvs)
           \<and> map_of mkvs ''content'' = Some c \<and> truthy c)"
proof (cases d)
  case (JObj kvs)
  show ?thesis
  proof (cases "map_of kvs ''message''")
    case None
    with JObj show ?thesis by (auto simp: alternate_shape_def split: option.splits)
  next
    case (Some m)
    with JObj show ?thesis
      by (cases m) (auto simp: alternate_shape_def split: option.splits)
  qed
qed (simp_all add: alternate_shape_def)

text \<open>
  C10.  When the primary POST of \<^verbatim>\<open>generate\<close> fails with status 404 or 405 and the
  alternate POST succeeds with a payload that matches neither alternate shape (no truthy
  \<^verbatim>\<open>response\<close>, no truthy \<^verbatim>\<open>message.content\<close>), the parser rejects the payload
  with the invalid-format error, and the caller does not get that error: the handler of
  the fallback replaces it with the terminal both-formats-failed error.
\<close>

theorem fallback_parse_failure_is_terminal:
  "http_failure transport (api_request (baseUrl self @ ''/v1/chat/completions'')
        (completions_body self (user_messages prompt))) (world s) = Some (r, w1)
    \<and> (status r = 404 \<or> status r = 405)
    \<and> transport (api_request (baseUrl self @ ''/api/generate'')
          (generate_native_body self prompt)) w1 = (Inr resp2, w2)
    \<and> \<not> alternate_shape (data resp2)
    \<longrightarrow> parseResponse sf resp2 ollama
          = Inl (new_Error (''Invalid response format: '' @ sf (data resp2)))
        \<and> generate transport sf self prompt s =
          (Inl (new_Error ''Both API formats failed. Check Nosana documentation for correct endpoint.''),
           \<lparr>world = w2,
            calls = calls s @ [api_request (baseUrl self @ ''/v1/chat/completions'')
                                 (completions_body self (user_messages prompt)),
                               api_request (baseUrl self @ ''/api/generate'')
                                 (generate_native_body self prompt)]\<rparr>)
        \<and> fst (generate transport sf self prompt s)
          \<noteq> Inl (new_Error (''Invalid response format: '' @ sf (data resp2)))"
proof (intro impI, elim conjE)
  assume h: "http_failure transport (api_request (baseUrl self @ ''/v1/chat/completions'')
        (completions_body self (user_messages prompt))) (world s) = Some (r, w1)"
    "status r = 404 \<or> status r = 405"
    and a: "transport (api_request (baseUrl self @ ''/api/generate'')
          (generate_native_body self prompt)) w1 = (Inr resp2, w2)"
    and n: "\<not> alternate_shape (data resp2)"
  have p: "parseResponse sf resp2 ollama
          = Inl (new_Error (''Invalid response format: '' @ sf (data resp2)))"
    using n by (rule ollama_rejects_nonmatching)
  have att: "attempt transport sf (api_request (baseUrl self @ ''/api/generate'')
          (generate_native_body self prompt)) ollama w1
          = (Inl (new_Error (''Invalid response format: '' @ sf (data resp2))), w2)"
    using a p by (simp add: attempt_def)
  have g: "generate transport sf self prompt s =
          (Inl (new_Error ''Both API formats failed. Check Nosana documentation for correct endpoint.''),
           \<lparr>world = w2,
            calls = calls s @ [api_request (baseUrl self @ ''/v1/chat/completions'')
                                 (completions_body self (user_messages prompt)),
                               api_request (baseUrl self @ ''/api/generate'')
                                 (generate_native_body self prompt)]\<rparr>)"
    using h att by (simp add: generate_fallback_run generateNativeOllama_run)
  have "fst (generate transport sf self prompt s)
          \<noteq> Inl (new_Error (''Invalid response format: '' @ sf (data resp2)))"
    by (simp add: g new_Error_def)
  with p g
  show "parseResponse sf resp2 ollama
          = Inl (new_Error (''Invalid response format: '' @ sf (data resp2)))
        \<and> generate transport sf self prompt s =
          (Inl (new_Error ''Both API formats failed. Check Nosana documentation for correct endpoint.''),
           \<lparr>world = w2,
            calls = calls s @ [api_request (baseUrl self @ ''/v1/chat/completions'')
                                 (completions_body self (user_messages prompt)),
                               api_request (baseUrl self @ ''/api/generate'')
                                 (generate_native_body self prompt)]\<rparr>)
        \<and> fst (generate transport sf self prompt s)
          \<noteq> Inl (new_Error (''Invalid response format: '' @ sf (data resp2)))"
    by simp
qed

theorem fallback_parse_failure_is_terminal_witness:
  "http_failure (route [(''http://host/v1/chat/completions'', Inl (http_error 405)),
                        (''http://host/api/generate'',
                         Inr \<lparr>status = 200, data = JObj [(''error'', JStr ''model not found'')]\<rparr>)])
     (api_request (baseUrl example_llm @ ''/v1/chat/completions'')
        (completions_body example_llm (user_messages ''hi''))) (world start)
     = Some (\<lparr>status = 405, data = JObj []\<rparr>, ())
   \<and> \<not> alternate_shape (JObj [(''error'', JStr ''model not found'')])
   \<and> parseResponse (\<lambda>v. ''<payload>'')
        \<lparr>status = 200, data = JObj [(''error'', JStr ''model not found'')]\<rparr> ollama
      = Inl (new_Error ''Invalid response format: <payload>'')
   \<and> fst (generate (route [(''http://host/v1/chat/completions'', Inl (http_error 405)),
                        (''http://host/api/generate'',
                         Inr \<lparr>status = 200, data = JObj [(''error'', JStr ''model not found'')]\<rparr>)])
          (\<lambda>v. ''<payload>'') example_llm ''hi'' start)
     = Inl (new_Error ''Both API formats failed. Check Nosana documentation for correct endpoint.'')
   \<and> \<not> alternate_shape (JObj [])
   \<and> fst (generate (route [(''http://host/v1/chat/completions'', Inl (http_error 404)),
                        (''http://host/api/generate'', Inr \<lparr>status = 200, data = JObj []\<rparr>)])
          (\<lambda>v. ''{}'') example_llm ''hi'' start)
     = Inl (new_Error ''Both API formats failed. Check Nosana documentation for correct endpoint.'')"
  using fallback_parse_failure_is_terminal[of
      "route [(''http://host/v1/chat/completions'', Inl (http_error 405)),
              (''http://host/api/generate'',
               Inr \<lparr>status = 200, data = JObj [(''error'', JStr ''model not found'')]\<rparr>)]"
      example_llm "''hi''" start "\<lparr>status = 405, data = JObj []\<rparr>" "()"
      "\<lparr>status = 200, data = JObj [(''error'', JStr ''model not found'')]\<rparr>" "()"
      "\<lambda>v. ''<payload>''"]
    fallback_parse_failure_is_terminal[of
      "route [(''http://host/v1/chat/completions'', Inl (http_error 404)),
              (''http://host/api/generate'', Inr \<lparr>status = 200, data = JObj []\<rparr>)]"
      example_llm "''hi''" start "\<lparr>status = 404, data = JObj []\<rparr>" "()"
      "\<lparr>status = 200, data = JObj []\<rparr>" "()" "\<lambda>v. ''{}''"]
  by (simp add: example_eval alternate_shape_def)

section \<open>Properties of the search client\<close>

lemma searchWeb_run:
  "searchWeb transport sf2 enc self q limit s =
     (case enc q of
        Inl e \<Rightarrow> (Inr [], s)
      | Inr q' \<Rightarrow>
          (case transport (search_request self q') (world s) of
             (Inl e, w') \<Rightarrow> (Inr [], \<lparr>world = w', calls = calls s @ [search_request self q']\<rparr>)
           | (Inr resp, w') \<Rightarrow>
               (Inr (formatRawResults sf2 (data resp)),
                \<lparr>world = w', calls = calls s @ [search_request self q']\<rparr>)))"
  by (simp add: searchWeb_def try_catch_def bind_io_def lift_e_def ret_def axios_call_def
           split: sum.splits prod.splits)

text \<open>
  C8.  \<^verbatim>\<open>searchWeb\<close> never throws: it always returns a sequence.  When the outbound
  request fails (an HTTP error such as 401, a network error) or the query cannot be
  encoded, the sequence is empty, which is also what a successful response with an
  empty body yields.
\<close>

theorem searchWeb_never_raises:
  "(\<exists>rs s'. searchWeb transport sf2 enc self q limit s = (Inr rs, s'))
   \<and> (enc q = Inr q' \<and> transport (search_request self q') (world s) = (Inl err, w')
        \<longrightarrow> searchWeb transport sf2 enc self q limit s =
              (Inr [], \<lparr>world = w', calls = calls s @ [search_request self q']\<rparr>))
   \<and> (enc q = Inl err \<longrightarrow> searchWeb transport sf2 enc self q limit s = (Inr [], s))
   \<and> (enc q = Inr q' \<and> transport (search_request self q') (world s) = (Inr resp, w')
        \<and> \<not> truthy (data resp)
        \<longrightarrow> searchWeb transport sf2 enc self q limit s =
              (Inr [], \<lparr>world = w', calls = calls s @ [search_request self q']\<rparr>))"
  by (auto simp: searchWeb_run formatRawResults_def split: sum.splits prod.splits)

theorem searchWeb_never_raises_witness:
  "route [(''https://api.brightdata.com/request'', Inl (http_error 401))]
      (search_request example_scraper ''hello'') (world start) = (Inl (http_error 401), ())
   \<and> response (http_error 401) = Some \<lparr>status = 401, data = JObj []\<rparr>
   \<and> searchWeb (route [(''https://api.brightdata.com/request'', Inl (http_error 401))])
        (\<lambda>v. ''{}'') Inr example_scraper ''hello'' None start
      = (Inr [], \<lparr>world = (), calls = [search_request example_scraper ''hello'']\<rparr>)"
  using searchWeb_never_raises[of
      "route [(''https://api.brightdata.com/request'', Inl (http_error 401))]"
      "\<lambda>v. ''{}''" Inr example_scraper "''hello''" None start "''hello''" "http_error 401" "()"
      "\<lparr>status = 200, data = JNull\<rparr>"]
  by (simp add: route_def search_request_def start_def http_error_def)

text \<open>
  C9, as the code has it.  On a successful response whose body is truthy, \<^verbatim>\<open>searchWeb\<close>
  returns exactly one result, with the fixed title and URL and, as snippet, the first
  5000 code units of the body (the body itself when it is a string, its serialization
  otherwise).  On a successful response whose body is falsy (an empty body, \<^verbatim>\<open>null\<close>,
  \<^verbatim>\<open>0\<close>, \<^verbatim>\<open>false\<close>) it returns the empty sequence.  The limit does not affect the
  result.
\<close>

theorem searchWeb_success:
  "(enc q = Inr q' \<and> transport (search_request self q') (world s) = (Inr resp, w')
      \<and> truthy (data resp)
      \<longrightarrow> searchWeb transport sf2 enc self q limit s =
            (Inr [\<lparr>title = ''Search Results'', url = ''https://www.google.com'',
                   snippet = take 5000 (dataString sf2 (data resp))\<rparr>],
             \<lparr>world = w', calls = calls s @ [search_request self q']\<rparr>)
          \<and> length (take 5000 (dataString sf2 (data resp))) \<le> 5000)
   \<and> (enc q = Inr q' \<and> transport (search_request self q') (world s) = (Inr resp, w')
      \<and> \<not> truthy (data resp)
      \<longrightarrow> searchWeb transport sf2 enc self q limit s =
            (Inr [], \<lparr>world = w', calls = calls s @ [search_request self q']\<rparr>))
   \<and> searchWeb transport sf2 enc self q limit s = searchWeb transport sf2 enc self q limit' s
   \<and> dataString sf2 (JStr b) = b
   \<and> ((\<forall>b. d \<noteq> JStr b) \<longrightarrow> dataString sf2 d = sf2 d)"
  by (auto simp: searchWeb_run formatRawResults_def dataString_def split: jsval.splits)

theorem searchWeb_success_witness:
  "route [(''https://api.brightdata.com/request'',
           Inr \<lparr>status = 200, data = JStr (replicate 6000 (CHR ''a''))\<rparr>)]
      (search_request example_scraper ''hello'') (world start)
     = (Inr \<lparr>status = 200, data = JStr (replicate 6000 (CHR ''a''))\<rparr>, ())
   \<and> truthy (JStr (replicate 6000 (CHR ''a'')))
   \<and> fst (searchWeb (route [(''https://api.brightdata.com/request'',
                 Inr \<lparr>status = 200, data = JStr (replicate 6000 (CHR ''a''))\<rparr>)])
        (\<lambda>v. ''{}'') Inr example_scraper ''hello'' (Some 1) start)
      = Inr [\<lparr>title = ''Search Results'', url = ''https://www.google.com'',
              snippet = replicate 5000 (CHR ''a'')\<rparr>]
   \<and> length (replicate 5000 (CHR ''a'')) = 5000"
  using searchWeb_success[of Inr "''hello''" "''hello''"
      "route [(''https://api.brightdata.com/request'',
           Inr \<lparr>status = 200, data = JStr (replicate 6000 (CHR ''a''))\<rparr>)]"
      example_scraper start "\<lparr>status = 200, data = JStr (replicate 6000 (CHR ''a''))\<rparr>" "()"
      "\<lambda>v. ''{}''" "Some 1" "Some 1" "[]" JNull]
  by (simp add: route_def search_request_def start_def dataString_def)

text \<open>
  C9 as stated (every successful response yields exactly one result) fails on a
  successful response with an empty body: the sequence returned is empty.
\<close>

theorem searchWeb_empty_body:
  "route [(''https://api.brightdata.com/request'', Inr \<lparr>status = 200, data = JStr ''''\<rparr>)]
      (search_request example_scraper ''hello'') (world start)
     = (Inr \<lparr>status = 200, data = JStr ''''\<rparr>, ())
   \<and> fst (searchWeb (route [(''https://api.brightdata.com/request'',
                 Inr \<lparr>status = 200, data = JStr ''''\<rparr>)])
        (\<lambda>v. ''{}'') Inr example_scraper ''hello'' None start) = Inr []
   \<and> length ([] :: SearchResult list) \<noteq> 1"
  by (simp add: searchWeb_run formatRawResults_def route_def search_request_def start_def)

end
